theory Spec2Isabelle
  imports Complex_Main "HOL-Library.Sublist" "HOL-Library.Product_Lexorder"
begin

section \<open>CodeGuard static analysis entrypoint (analyze.py)\<close>

text \<open>
  The development embeds \<^verbatim>\<open>extract_functions\<close> and \<^verbatim>\<open>analyze_file\<close> of
  \<^verbatim>\<open>StaticAnalysis/code/analyze.py\<close>. A Python \<^verbatim>\<open>str\<close> is a \<open>string\<close> whose characters
  are the code points below 256. The file system, the three classifiers of \<^verbatim>\<open>deploy\<close>
  and the parser of \<^verbatim>\<open>float\<close> applied to a \<^verbatim>\<open>str\<close> are parameters of the model.
\<close>

subsection \<open>Strings: \<^verbatim>\<open>split\<close>, \<^verbatim>\<open>join\<close>, \<^verbatim>\<open>count\<close>\<close>

definition NL :: char where
  "NL = CHR 0x0A"

text \<open>
  \<^verbatim>\<open>code.split('\n')\<close>: the pieces between newlines, the piece being read in \<open>cur\<close>;
  never the empty list.
\<close>

fun split_acc :: "string \<Rightarrow> string \<Rightarrow> string list" where
  "split_acc cur [] = [cur]"
| "split_acc cur (c # cs) =
     (if c = NL then cur # split_acc [] cs else split_acc (cur @ [c]) cs)"

definition split_nl :: "string \<Rightarrow> string list" where
  "split_nl s = split_acc [] s"

text \<open>\<^verbatim>\<open>'\n'.join(function_lines)\<close>.\<close>

fun join_nl :: "string list \<Rightarrow> string" where
  "join_nl [] = []"
| "join_nl [l] = l"
| "join_nl (l # ls) = l @ NL # join_nl ls"

text \<open>\<^verbatim>\<open>line.count('{')\<close> for a one-character argument.\<close>

definition count_chr :: "string \<Rightarrow> char \<Rightarrow> nat" where
  "count_chr line c = length (filter (\<lambda>d. d = c) line)"

subsection \<open>The regular expression of \<^verbatim>\<open>function_pattern\<close>\<close>

text \<open>
  The character classes \<^verbatim>\<open>\w\<close> and \<^verbatim>\<open>\s\<close> of a \<^verbatim>\<open>str\<close> pattern, on the code points
  below 256: letters, digits (decimal, superscript, vulgar fractions) and the
  underscore; white space including the separators 28 to 31, NEL and NBSP.
\<close>

definition is_word :: "char \<Rightarrow> bool" where
  "is_word c =
     (let n = (of_char c :: nat) in
      (48 \<le> n \<and> n \<le> 57) \<or> (65 \<le> n \<and> n \<le> 90) \<or> n = 95 \<or> (97 \<le> n \<and> n \<le> 122) \<or>
      n = 170 \<or> (178 \<le> n \<and> n \<le> 179) \<or> n = 181 \<or> (185 \<le> n \<and> n \<le> 186) \<or>
      (188 \<le> n \<and> n \<le> 190) \<or> (192 \<le> n \<and> n \<le> 214) \<or> (216 \<le> n \<and> n \<le> 246) \<or>
      (248 \<le> n \<and> n \<le> 255))"

definition is_space :: "char \<Rightarrow> bool" where
  "is_space c =
     (let n = (of_char c :: nat) in
      (9 \<le> n \<and> n \<le> 13) \<or> (28 \<le> n \<and> n \<le> 32) \<or> n = 133 \<or> n = 160)"

text \<open>
  One-character items: a literal, a negated one-character set \<^verbatim>\<open>[^c]\<close>, \<^verbatim>\<open>\w\<close>, \<^verbatim>\<open>\s\<close>.
  The pattern applies \<^verbatim>\<open>*\<close> and \<^verbatim>\<open>+\<close> to one-character items only, and so does \<open>regex\<close>.
\<close>

datatype atom = Lit char | NotLit char | Word | Space

datatype regex = Atom atom | Star atom | Plus atom | Seq regex regex | Opt regex

fun atom_ok :: "atom \<Rightarrow> char \<Rightarrow> bool" where
  "atom_ok (Lit d) c = (c = d)"
| "atom_ok (NotLit d) c = (c \<noteq> d)"
| "atom_ok Word c = is_word c"
| "atom_ok Space c = is_space c"

text \<open>
  A backtracking matcher: \<open>rems r s\<close> lists what is left of \<open>s\<close> after each way of
  matching \<open>r\<close> at its start, the greedy choice first.
\<close>

fun star_rems :: "atom \<Rightarrow> string \<Rightarrow> string list" where
  "star_rems a [] = [[]]"
| "star_rems a (c # cs) = (if atom_ok a c then star_rems a cs @ [c # cs] else [c # cs])"

fun rems :: "regex \<Rightarrow> string \<Rightarrow> string list" where
  "rems (Atom a) s = (case s of [] \<Rightarrow> [] | c # cs \<Rightarrow> if atom_ok a c then [cs] else [])"
| "rems (Star a) s = star_rems a s"
| "rems (Plus a) s = (case s of [] \<Rightarrow> [] | c # cs \<Rightarrow> if atom_ok a c then star_rems a cs else [])"
| "rems (Seq r1 r2) s = concat (map (rems r2) (rems r1 s))"
| "rems (Opt r) s = rems r s @ [s]"

definition re_match :: "regex \<Rightarrow> string \<Rightarrow> bool" where
  "re_match r s = (rems r s \<noteq> [])"

text \<open>\<^verbatim>\<open>re.search\<close>: a match starting at some position of the line.\<close>

fun re_search :: "regex \<Rightarrow> string \<Rightarrow> bool" where
  "re_search r [] = re_match r []"
| "re_search r (c # cs) = (re_match r (c # cs) \<or> re_search r cs)"

text \<open>\<^verbatim>\<open>function_pattern = r'(\w+\s+)?(\w+)\s*\([^)]*\)\s*\{'\<close>\<close>

definition function_pattern :: regex where
  "function_pattern =
     Seq (Opt (Seq (Plus Word) (Plus Space)))
    (Seq (Plus Word)
    (Seq (Star Space)
    (Seq (Atom (Lit (CHR ''('')))
    (Seq (Star (NotLit (CHR '')'')))
    (Seq (Atom (Lit (CHR '')'')))
    (Seq (Star Space)
         (Atom (Lit (CHR ''{'')))))))))"

subsection \<open>\<^verbatim>\<open>extract_functions\<close>\<close>

record func =
  code :: string
  start_line :: nat
  end_line :: nat

text \<open>
  The inner loop \<^verbatim>\<open>for j in range(i, len(lines))\<close> over the lines from \<open>i\<close> on:
  \<open>brace_count\<close> and \<open>function_lines\<close> are threaded, and the loop breaks at the first
  line that brings the count to zero.
\<close>

fun body_scan :: "int \<Rightarrow> string list \<Rightarrow> string list \<Rightarrow> int \<times> string list" where
  "body_scan brace_count function_lines [] = (brace_count, function_lines)"
| "body_scan brace_count function_lines (l # ls) =
     (let function_lines' = function_lines @ [l];
          brace_count' = brace_count + (int (count_chr l (CHR ''{'')) - int (count_chr l (CHR ''}'')))
      in if brace_count' = 0 then (brace_count', function_lines')
         else body_scan brace_count' function_lines' ls)"

text \<open>
  The body of the outer loop at index \<open>i\<close> (0-based, \<open>i < len(lines)\<close>): the unit it
  appends to \<open>functions\<close>, if any.
\<close>

definition candidate :: "string list \<Rightarrow> nat \<Rightarrow> func option" where
  "candidate lines i =
     (if re_search function_pattern (lines ! i) then
        (let start_line = i;
             (brace_count, function_lines) = body_scan 0 [] (drop i lines)
         in if brace_count = 0
            then Some \<lparr>code = join_nl function_lines,
                       start_line = start_line + 1,
                       end_line = start_line + length function_lines\<rparr>
            else None)
      else None)"

text \<open>The outer loop \<^verbatim>\<open>for i, line in enumerate(lines)\<close>, appending to \<open>functions\<close>.\<close>

definition scan_lines :: "string list \<Rightarrow> func list" where
  "scan_lines lines =
     foldl (\<lambda>functions i. case candidate lines i of
                             Some u \<Rightarrow> functions @ [u]
                           | None \<Rightarrow> functions)
           [] [0..<length lines]"

definition extract_functions :: "string \<Rightarrow> func list" where
  "extract_functions src =
     (let lines = split_nl src;
          functions = scan_lines lines
      in if functions = []
         then [\<lparr>code = src, start_line = 1, end_line = length lines\<rparr>]
         else functions)"

text \<open>The number of lines of a unit's text, as \<^verbatim>\<open>split\<close> counts them.\<close>

definition line_count :: "string \<Rightarrow> nat" where
  "line_count text = length (split_nl text)"

subsection \<open>Exceptions and subscripts\<close>

text \<open>
  What a step of the analysis can raise. The first six are instances of \<^verbatim>\<open>Exception\<close>:
  a missing dictionary key, a list index out of range, \<^verbatim>\<open>ValueError\<close>, \<^verbatim>\<open>TypeError\<close> and
  \<^verbatim>\<open>OverflowError\<close> with their messages, and \<open>Failure\<close> for any other instance of
  \<^verbatim>\<open>Exception\<close> that a collaborator (the file system, a classifier) raises, carrying its
  \<^verbatim>\<open>str(e)\<close>. \<open>BaseFault\<close> is what a collaborator raises that is not an instance of
  \<^verbatim>\<open>Exception\<close>: \<^verbatim>\<open>SystemExit\<close>, \<^verbatim>\<open>KeyboardInterrupt\<close>, \<^verbatim>\<open>GeneratorExit\<close>.
\<close>

datatype exn =
    KeyError string
  | IndexError
  | ValueError string
  | TypeError string
  | OverflowError string
  | Failure string
  | BaseFault string

text \<open>\<^verbatim>\<open>isinstance(e, Exception)\<close>: what \<^verbatim>\<open>except Exception\<close> catches.\<close>

fun is_Exception :: "exn \<Rightarrow> bool" where
  "is_Exception (BaseFault m) = False"
| "is_Exception e = True"

text \<open>\<^verbatim>\<open>str(e)\<close>: a \<^verbatim>\<open>KeyError\<close> prints the \<^verbatim>\<open>repr\<close> of its key.\<close>

fun str_exn :: "exn \<Rightarrow> string" where
  "str_exn (KeyError k) = [CHR 0x27] @ k @ [CHR 0x27]"
| "str_exn IndexError = ''list index out of range''"
| "str_exn (ValueError m) = m"
| "str_exn (TypeError m) = m"
| "str_exn (OverflowError m) = m"
| "str_exn (Failure m) = m"
| "str_exn (BaseFault m) = m"

definition bind_exn :: "exn + 'a \<Rightarrow> ('a \<Rightarrow> exn + 'b) \<Rightarrow> exn + 'b" where
  "bind_exn m f = (case m of Inl e \<Rightarrow> Inl e | Inr v \<Rightarrow> f v)"

text \<open>\<^verbatim>\<open>d[key]\<close> on a dictionary entry that may be missing, and \<^verbatim>\<open>xs[i]\<close> for \<open>i \<ge> 0\<close>.\<close>

definition getkey :: "string \<Rightarrow> 'a option \<Rightarrow> exn + 'a" where
  "getkey k entry = (case entry of None \<Rightarrow> Inl (KeyError k) | Some v \<Rightarrow> Inr v)"

definition getitem :: "'a list \<Rightarrow> nat \<Rightarrow> exn + 'a" where
  "getitem xs i = (if i < length xs then Inr (xs ! i) else Inl IndexError)"

subsection \<open>Floats and other values\<close>

text \<open>
  A Python \<^verbatim>\<open>float\<close>: a finite one is \<open>Fin\<close> of the rational number it denotes, and
  there are the negative zero, the two infinities and NaN.
\<close>

datatype pyfloat = Fin rat | NegZero | PInf | NInf | NaN

fun is_nan :: "pyfloat \<Rightarrow> bool" where
  "is_nan NaN = True"
| "is_nan x = False"

text \<open>
  The order of the floats that are not NaN: the infinities below and above the finite
  ones, the negative zero equal to zero.
\<close>

fun float_key :: "pyfloat \<Rightarrow> int \<times> rat" where
  "float_key (Fin r) = (0, r)"
| "float_key NegZero = (0, 0)"
| "float_key PInf = (1, 0)"
| "float_key NInf = (- 1, 0)"
| "float_key NaN = (0, 0)"

text \<open>\<^verbatim>\<open>a > b\<close> and \<^verbatim>\<open>a == b\<close>: false as soon as one side is NaN.\<close>

definition float_gt :: "pyfloat \<Rightarrow> pyfloat \<Rightarrow> bool" where
  "float_gt a b = (\<not> is_nan a \<and> \<not> is_nan b \<and> float_key b < float_key a)"

definition float_eq :: "pyfloat \<Rightarrow> pyfloat \<Rightarrow> bool" where
  "float_eq a b = (\<not> is_nan a \<and> \<not> is_nan b \<and> float_key a = float_key b)"

text \<open>
  \<^verbatim>\<open>max(line_scores)\<close>: the running maximum starts at the first item and moves to an
  item that compares greater.
\<close>

fun py_max :: "pyfloat list \<Rightarrow> exn + pyfloat" where
  "py_max [] = Inl (ValueError ''max() arg is an empty sequence'')"
| "py_max (x # xs) = Inr (foldl (\<lambda>m y. if float_gt y m then y else m) x xs)"

text \<open>
  \<^verbatim>\<open>line_scores.index(max_score)\<close>: the first item that is the value itself or compares
  equal to it. Being the same object is modelled as being the same value.
\<close>

fun py_index :: "pyfloat list \<Rightarrow> pyfloat \<Rightarrow> exn + nat" where
  "py_index [] v = Inl (ValueError ''value is not in list'')"
| "py_index (x # xs) v =
     (if x = v \<or> float_eq x v then Inr 0 else bind_exn (py_index xs v) (\<lambda>k. Inr (Suc k)))"

text \<open>
  The entries that \<^verbatim>\<open>analyze_file\<close> converts with \<^verbatim>\<open>float\<close> or formats with \<^verbatim>\<open>.2f\<close>:
  \<^verbatim>\<open>None\<close>, an \<^verbatim>\<open>int\<close> (a \<^verbatim>\<open>bool\<close> is the \<^verbatim>\<open>int\<close> 0 or 1), a \<^verbatim>\<open>float\<close> or a \<^verbatim>\<open>str\<close>.
\<close>

datatype pyval = VNone | VInt int | VFloat pyfloat | VStr string

subsection \<open>\<^verbatim>\<open>str\<close>, \<^verbatim>\<open>float\<close> and the format \<^verbatim>\<open>.2f\<close>\<close>

text \<open>\<^verbatim>\<open>str(n)\<close> for a natural number.\<close>

definition digit_chr :: "nat \<Rightarrow> char" where
  "digit_chr d = char_of (48 + d)"

fun str_nat :: "nat \<Rightarrow> string" where
  "str_nat n = (if n < 10 then [digit_chr n] else str_nat (n div 10) @ [digit_chr (n mod 10)])"

declare str_nat.simps [simp del]

text \<open>The decimal digits of an integer that is not negative.\<close>

function str_int :: "int \<Rightarrow> string" where
  "str_int n =
     (if n < 10 then [digit_chr (nat n)] else str_int (n div 10) @ [digit_chr (nat (n mod 10))])"
  by pat_completeness auto
termination
  by (relation "measure nat") auto

declare str_int.simps [simp del]

text \<open>Rounding to the nearest integer, ties to even.\<close>

definition round_half_even :: "rat \<Rightarrow> int" where
  "round_half_even x =
     (let f = \<lfloor>x\<rfloor>; d = x - of_int f
      in if d < 1 / 2 then f
         else if 1 / 2 < d then f + 1
         else if even f then f else f + 1)"

text \<open>
  \<^verbatim>\<open>float(n)\<close> for an \<^verbatim>\<open>int\<close>: exact up to 53 bits, beyond that rounded to 53 significant
  bits, ties to even; \<^verbatim>\<open>OverflowError\<close> when the rounded value reaches \<open>2 ^ 1024\<close>.
\<close>

function bit_length :: "int \<Rightarrow> nat" where
  "bit_length n = (if n \<le> 0 then 0 else Suc (bit_length (n div 2)))"
  by pat_completeness auto
termination
  by (relation "measure nat") auto

declare bit_length.simps [simp del]

definition int_to_float :: "int \<Rightarrow> exn + pyfloat" where
  "int_to_float n =
     (let m = \<bar>n\<bar>; b = bit_length m
      in if b \<le> 53 then Inr (Fin (of_int n))
         else
           (let sh = b - 53;
                r = round_half_even (of_int m / 2 ^ sh) * 2 ^ sh
            in if 2 ^ 1024 \<le> r
               then Inl (OverflowError ''int too large to convert to float'')
               else Inr (Fin (of_int (if n < 0 then - r else r)))))"

text \<open>
  \<^verbatim>\<open>float(v)\<close>. What \<^verbatim>\<open>float\<close> makes of a \<^verbatim>\<open>str\<close> (a float, or \<^verbatim>\<open>ValueError\<close>) is the
  parameter \<open>float_str\<close>.
\<close>

fun py_float :: "(string \<Rightarrow> exn + pyfloat) \<Rightarrow> pyval \<Rightarrow> exn + pyfloat" where
  "py_float float_str (VFloat f) = Inr f"
| "py_float float_str (VInt n) = int_to_float n"
| "py_float float_str (VStr s) = float_str s"
| "py_float float_str VNone =
     Inl (TypeError (''float() argument must be a string or a real number, not '' @
                     [CHR 0x27] @ ''NoneType'' @ [CHR 0x27]))"

text \<open>
  \<^verbatim>\<open>f'{x:.2f}'\<close> for a float: the exact value rounded to two decimals, ties to even.
\<close>

fun fmt_2f :: "pyfloat \<Rightarrow> string" where
  "fmt_2f (Fin x) =
     (let n = round_half_even (\<bar>x\<bar> * 100)
      in (if x < 0 then ''-'' else []) @ str_int (n div 100) @ ''.'' @
         [digit_chr (nat (n mod 100 div 10)), digit_chr (nat (n mod 10))])"
| "fmt_2f NegZero = ''-0.00''"
| "fmt_2f PInf = ''inf''"
| "fmt_2f NInf = ''-inf''"
| "fmt_2f NaN = ''nan''"

text \<open>\<^verbatim>\<open>f'{v:.2f}'\<close>: an \<^verbatim>\<open>int\<close> is converted to a float first.\<close>

fun py_format_2f :: "pyval \<Rightarrow> exn + string" where
  "py_format_2f (VFloat f) = Inr (fmt_2f f)"
| "py_format_2f (VInt n) = bind_exn (int_to_float n) (\<lambda>f. Inr (fmt_2f f))"
| "py_format_2f (VStr s) =
     Inl (ValueError (''Unknown format code '' @ [CHR 0x27] @ ''f'' @ [CHR 0x27] @
                      '' for object of type '' @ [CHR 0x27] @ ''str'' @ [CHR 0x27]))"
| "py_format_2f VNone =
     Inl (TypeError ''unsupported format string passed to NoneType.__format__'')"

subsection \<open>Classifier results and findings\<close>

text \<open>
  The dictionaries returned by \<^verbatim>\<open>main\<close>, \<^verbatim>\<open>main_cwe\<close> and \<^verbatim>\<open>main_sev\<close>, with the keys
  \<^verbatim>\<open>analyze_file\<close> reads; a missing key is \<open>None\<close>. Predictions are integers, line
  scores are floats (an \<^verbatim>\<open>int\<close> among them is the \<open>Fin\<close> of its value: Python compares an
  \<^verbatim>\<open>int\<close> and a \<^verbatim>\<open>float\<close> exactly), identifiers and classes are strings; the entries
  that the code passes to \<^verbatim>\<open>float\<close> or to the format \<^verbatim>\<open>.2f\<close> are values of any of the
  four kinds.
\<close>

record vuln_result =
  batch_vul_pred :: "int list option"
  batch_vul_pred_prob :: "pyval list option"
  batch_line_scores :: "pyfloat list list option"

record cwe_result =
  cwe_id :: "string list option"
  cwe_id_prob :: "pyval list option"

record sev_result =
  batch_sev_class :: "string list option"
  batch_sev_score :: "pyval list option"

text \<open>The dictionary \<open>vulnerability\<close>; its keys \<^verbatim>\<open>id\<close> and \<^verbatim>\<open>type\<close> are \<open>id'\<close> and \<open>type'\<close>.\<close>

record vulnerability =
  id' :: string
  type' :: string
  severity :: string
  message :: string
  line :: nat
  cweId :: string
  cweDescription :: string
  source :: string
  probability :: pyfloat
  severityScore :: pyfloat

text \<open>The dictionary that \<^verbatim>\<open>analyze_file\<close> returns.\<close>

record report =
  vulnerabilities :: "vulnerability list"
  errors :: "string list"

subsection \<open>\<^verbatim>\<open>analyze_file\<close>: the fusion loop\<close>

text \<open>
  The conditional expression \<^verbatim>\<open>res[key][i] if key in res else default\<close>, for the entry
  of \<open>key\<close> in \<open>res\<close>.
\<close>

definition get_or :: "'a list option \<Rightarrow> nat \<Rightarrow> 'a \<Rightarrow> exn + 'a" where
  "get_or entry i dflt = (case entry of Some xs \<Rightarrow> getitem xs i | None \<Rightarrow> Inr dflt)"

text \<open>The line with the highest score, mapped to the source line.\<close>

definition vuln_line_of :: "func \<Rightarrow> pyfloat list \<Rightarrow> exn + nat" where
  "vuln_line_of func line_scores =
     (if line_scores \<noteq> [] then
        bind_exn (py_max line_scores) (\<lambda>max_score.
        bind_exn (py_index line_scores max_score) (\<lambda>vuln_line_idx.
        Inr (start_line func + vuln_line_idx)))
      else Inr (start_line func))"

text \<open>
  The body of \<^verbatim>\<open>for i, func in enumerate(functions)\<close>: the vulnerability it appends,
  if any, or the exception it raises. The subscripts, the format and the conversions
  are evaluated in the order of the source: the dictionary display formats
  \<open>cwe_prob\<close> for \<^verbatim>\<open>cweDescription\<close> before it reads and converts the probability, and
  converts the severity score last.
\<close>

definition vuln_at ::
  "(string \<Rightarrow> exn + pyfloat) \<Rightarrow> vuln_result \<Rightarrow> cwe_result \<Rightarrow> sev_result \<Rightarrow> nat \<Rightarrow> func
     \<Rightarrow> exn + vulnerability option" where
  "vuln_at float_str vuln_res cwe_res sev_res i func =
     bind_exn (getkey ''batch_vul_pred'' (batch_vul_pred vuln_res)) (\<lambda>preds.
     bind_exn (getitem preds i) (\<lambda>pred.
     if pred = 1 then
       bind_exn (get_or (batch_line_scores vuln_res) i []) (\<lambda>line_scores.
       bind_exn (vuln_line_of func line_scores) (\<lambda>vuln_line.
       bind_exn (get_or (cwe_id cwe_res) i ''CWE-119'') (\<lambda>cwe.
       bind_exn (get_or (cwe_id_prob cwe_res) i (VFloat (Fin (1 / 2)))) (\<lambda>cwe_prob.
       bind_exn (get_or (batch_sev_class sev_res) i ''Medium'') (\<lambda>sev.
       bind_exn (get_or (batch_sev_score sev_res) i (VFloat (Fin 5))) (\<lambda>severity_score.
       bind_exn (py_format_2f cwe_prob) (\<lambda>confidence.
       bind_exn (getkey ''batch_vul_pred_prob'' (batch_vul_pred_prob vuln_res)) (\<lambda>probs.
       bind_exn (getitem probs i) (\<lambda>prob.
       bind_exn (py_float float_str prob) (\<lambda>prob_float.
       bind_exn (py_float float_str severity_score) (\<lambda>score_float.
       Inr (Some \<lparr>id' = ''STATIC-'' @ str_nat (i + 1),
                   type' = ''static'',
                   severity = sev,
                   message = ''Potential '' @ cwe @ '' vulnerability detected'',
                   line = vuln_line,
                   cweId = cwe,
                   cweDescription = cwe @ '' vulnerability with '' @ confidence @ '' confidence'',
                   source = ''CodeGuard Static Analysis'',
                   probability = prob_float,
                   severityScore = score_float\<rparr>))))))))))))
     else Inr None))"

text \<open>The loop, from index \<open>i\<close> on, appending to the list \<open>vulnerabilities\<close>.\<close>

fun fuse_loop ::
  "(string \<Rightarrow> exn + pyfloat) \<Rightarrow> vuln_result \<Rightarrow> cwe_result \<Rightarrow> sev_result \<Rightarrow> nat \<Rightarrow> func list
     \<Rightarrow> vulnerability list \<Rightarrow> exn + vulnerability list" where
  "fuse_loop float_str vuln_res cwe_res sev_res i [] vulns = Inr vulns"
| "fuse_loop float_str vuln_res cwe_res sev_res i (func # rest) vulns =
     (case vuln_at float_str vuln_res cwe_res sev_res i func of
        Inl e \<Rightarrow> Inl e
      | Inr None \<Rightarrow> fuse_loop float_str vuln_res cwe_res sev_res (i + 1) rest vulns
      | Inr (Some v) \<Rightarrow> fuse_loop float_str vuln_res cwe_res sev_res (i + 1) rest (vulns @ [v]))"

definition fuse ::
  "(string \<Rightarrow> exn + pyfloat) \<Rightarrow> vuln_result \<Rightarrow> cwe_result \<Rightarrow> sev_result \<Rightarrow> func list
     \<Rightarrow> exn + vulnerability list" where
  "fuse float_str vuln_res cwe_res sev_res functions =
     fuse_loop float_str vuln_res cwe_res sev_res 0 functions []"

subsection \<open>\<^verbatim>\<open>analyze_file\<close>\<close>

text \<open>
  The collaborators are parameters: \<open>read_file\<close> is \<^verbatim>\<open>open(file_path).read()\<close>, and
  \<open>main\<close>, \<open>main_cwe\<close>, \<open>main_sev\<close> are the classifiers of \<^verbatim>\<open>deploy\<close>, called with the
  list of function texts and \<^verbatim>\<open>gpu=False\<close>. \<open>analyze_try\<close> is the body of the
  \<^verbatim>\<open>try\<close> statement.
\<close>

definition analyze_try ::
  "(string \<Rightarrow> exn + pyfloat) \<Rightarrow> (string \<Rightarrow> exn + string) \<Rightarrow>
   (string list \<Rightarrow> bool \<Rightarrow> exn + vuln_result) \<Rightarrow> (string list \<Rightarrow> bool \<Rightarrow> exn + cwe_result) \<Rightarrow>
   (string list \<Rightarrow> bool \<Rightarrow> exn + sev_result) \<Rightarrow> string \<Rightarrow> exn + report" where
  "analyze_try float_str read_file main main_cwe main_sev file_path =
     bind_exn (read_file file_path) (\<lambda>src.
     let functions = extract_functions src in
     if functions = [] then
       Inr \<lparr>vulnerabilities = [], errors = [''No functions found in the code'']\<rparr>
     else
       let function_codes = map code functions in
       bind_exn (main function_codes False) (\<lambda>vuln_res.
       bind_exn (main_cwe function_codes False) (\<lambda>cwe_res.
       bind_exn (main_sev function_codes False) (\<lambda>sev_res.
       bind_exn (fuse float_str vuln_res cwe_res sev_res functions) (\<lambda>vulns.
       Inr \<lparr>vulnerabilities = vulns, errors = []\<rparr>)))))"

text \<open>
  The \<^verbatim>\<open>try\<close> statement with its handler \<^verbatim>\<open>except Exception as e\<close>: the report that
  \<^verbatim>\<open>analyze_file\<close> returns, or what it lets through to its caller.
\<close>

definition analyze_file ::
  "(string \<Rightarrow> exn + pyfloat) \<Rightarrow> (string \<Rightarrow> exn + string) \<Rightarrow>
   (string list \<Rightarrow> bool \<Rightarrow> exn + vuln_result) \<Rightarrow> (string list \<Rightarrow> bool \<Rightarrow> exn + cwe_result) \<Rightarrow>
   (string list \<Rightarrow> bool \<Rightarrow> exn + sev_result) \<Rightarrow> string \<Rightarrow> exn + report" where
  "analyze_file float_str read_file main main_cwe main_sev file_path =
     (case analyze_try float_str read_file main main_cwe main_sev file_path of
        Inr result \<Rightarrow> Inr result
      | Inl e \<Rightarrow>
          if is_Exception e
          then Inr \<lparr>vulnerabilities = [], errors = [''Analysis failed: '' @ str_exn e]\<rparr>
          else Inl e)"

subsection \<open>Sample inputs\<close>

text \<open>A complete function on three lines, followed by a final newline.\<close>

definition sample_add :: string where
  "sample_add = join_nl [''int add(int a,int b){'', ''return a+b;'', ''}'', '''']"

text \<open>A function whose body holds a nested block that the pattern matches as well.\<close>

definition sample_nested :: string where
  "sample_nested = join_nl [''void f() {'', ''  if (x) {'', ''  }'', ''}'']"

text \<open>Two declarations, no brace.\<close>

definition sample_plain :: string where
  "sample_plain = join_nl [''int x;'', ''int y;'']"

text \<open>A parser of \<^verbatim>\<open>float\<close> that accepts no string.\<close>

definition no_float_str :: "string \<Rightarrow> exn + pyfloat" where
  "no_float_str s = Inl (ValueError ''could not convert string to float'')"

text \<open>Two one-line units, and classifier results for them.\<close>

definition sample_units :: "func list" where
  "sample_units =
     [\<lparr>code = ''int f(){}'', start_line = 1, end_line = 1\<rparr>,
      \<lparr>code = ''int g(){}'', start_line = 2, end_line = 2\<rparr>]"

definition vuln_second :: vuln_result where
  "vuln_second =
     \<lparr>batch_vul_pred = Some [0, 1],
      batch_vul_pred_prob = Some [VFloat (Fin (1 / 10)), VFloat (Fin (9 / 10))],
      batch_line_scores = None\<rparr>"

definition vuln_no_pred :: vuln_result where
  "vuln_no_pred =
     \<lparr>batch_vul_pred = None,
      batch_vul_pred_prob = Some [VFloat (Fin (1 / 10)), VFloat (Fin (9 / 10))],
      batch_line_scores = None\<rparr>"

definition vuln_no_prob :: vuln_result where
  "vuln_no_prob =
     \<lparr>batch_vul_pred = Some [0, 1], batch_vul_pred_prob = None, batch_line_scores = None\<rparr>"

definition cwe_empty :: cwe_result where
  "cwe_empty = \<lparr>cwe_id = None, cwe_id_prob = None\<rparr>"

definition sev_empty :: sev_result where
  "sev_empty = \<lparr>batch_sev_class = None, batch_sev_score = None\<rparr>"

text \<open>The finding of the second unit of \<open>sample_units\<close> under defaults.\<close>

definition finding_second :: vulnerability where
  "finding_second =
     \<lparr>id' = ''STATIC-2'', type' = ''static'', severity = ''Medium'',
      message = ''Potential CWE-119 vulnerability detected'', line = 2, cweId = ''CWE-119'',
      cweDescription = ''CWE-119 vulnerability with 0.50 confidence'',
      source = ''CodeGuard Static Analysis'', probability = Fin (9 / 10),
      severityScore = Fin 5\<rparr>"

text \<open>A unit of lines 5 to 7 with line scores, the highest on its second line.\<close>

definition sample_unit5 :: "func list" where
  "sample_unit5 =
     [\<lparr>code = join_nl [''int h(){'', ''return 0;'', ''}''], start_line = 5, end_line = 7\<rparr>]"

definition vuln_scored :: vuln_result where
  "vuln_scored =
     \<lparr>batch_vul_pred = Some [1], batch_vul_pred_prob = Some [VFloat (Fin (9 / 10))],
      batch_line_scores = Some [[Fin (1 / 10), Fin (8 / 10), Fin (8 / 10)]]\<rparr>"





text \<open>A result of \<^verbatim>\<open>main\<close> for one unit that is not vulnerable.\<close>

definition vuln_clean :: vuln_result where
  "vuln_clean =
     \<lparr>batch_vul_pred = Some [0], batch_vul_pred_prob = Some [VFloat (Fin (1 / 10))],
      batch_line_scores = None\<rparr>"

text \<open>
  A result of \<^verbatim>\<open>main\<close> for one vulnerable unit whose probability is \<^verbatim>\<open>None\<close>, and one
  of \<^verbatim>\<open>main_sev\<close> whose score is an \<^verbatim>\<open>int\<close> of 55 bits.
\<close>

definition vuln_none_prob :: vuln_result where
  "vuln_none_prob =
     \<lparr>batch_vul_pred = Some [1], batch_vul_pred_prob = Some [VNone], batch_line_scores = None\<rparr>"

definition sev_big :: sev_result where
  "sev_big = \<lparr>batch_sev_class = Some [''High''], batch_sev_score = Some [VInt (2 ^ 54 + 3)]\<rparr>"

section \<open>Properties of the extractor\<close>

subsection \<open>Splitting and joining\<close>

lemma split_acc_ne: "split_acc cur s \<noteq> []"
  by (induction s arbitrary: cur) auto

lemma split_acc_no_nl: "NL \<notin> set l \<Longrightarrow> split_acc cur l = [cur @ l]"
  by (induction l arbitrary: cur) auto

lemma split_acc_append:
  "NL \<notin> set l \<Longrightarrow> split_acc cur (l @ NL # r) = (cur @ l) # split_acc [] r"
  by (induction l arbitrary: cur) auto

lemma split_nl_join:
  "ls \<noteq> [] \<Longrightarrow> \<forall>l\<in>set ls. NL \<notin> set l \<Longrightarrow> split_nl (join_nl ls) = ls"
proof (induction ls rule: join_nl.induct)
  case 1
  then show ?case by simp
next
  case (2 l)
  then show ?case by (simp add: split_nl_def split_acc_no_nl)
next
  case (3 l v va)
  then have "split_nl (join_nl (v # va)) = v # va" by simp
  with 3 show ?case by (simp add: split_nl_def split_acc_append)
qed

lemma split_acc_lines:
  "NL \<notin> set cur \<Longrightarrow> l \<in> set (split_acc cur s) \<Longrightarrow> NL \<notin> set l"
proof (induction s arbitrary: cur)
  case Nil
  then show ?case by simp
next
  case (Cons c cs)
  show ?case
  proof (cases "c = NL")
    case True
    with Cons.prems have "l = cur \<or> l \<in> set (split_acc [] cs)" by simp
    then show ?thesis using Cons.IH [of "[]"] Cons.prems(1) by auto
  next
    case False
    with Cons.prems have "l \<in> set (split_acc (cur @ [c]) cs)" by simp
    moreover from False Cons.prems(1) have "NL \<notin> set (cur @ [c])" by simp
    ultimately show ?thesis by (rule Cons.IH [rotated])
  qed
qed

lemma split_nl_lines: "l \<in> set (split_nl s) \<Longrightarrow> NL \<notin> set l"
  using split_acc_lines [of "[]" l s] by (simp add: split_nl_def)

lemma split_nl_length: "1 \<le> length (split_nl s)"
  using split_acc_ne [of "[]" s] by (cases "split_nl s") (auto simp: split_nl_def)

subsection \<open>The pattern needs an opening brace\<close>

lemma star_rems_suffix: "t \<in> set (star_rems a s) \<Longrightarrow> suffix t s"
  by (induction s) (auto split: if_splits intro: suffix_ConsI)

lemma rems_suffix: "t \<in> set (rems r s) \<Longrightarrow> suffix t s"
proof (induction r arbitrary: s t)
  case (Atom a)
  then show ?case by (cases s) (auto split: if_splits intro: suffix_ConsI)
next
  case (Star a)
  then show ?case by (simp add: star_rems_suffix)
next
  case (Plus a)
  then show ?case by (cases s) (auto split: if_splits intro: suffix_ConsI dest: star_rems_suffix)
next
  case (Seq r1 r2)
  from Seq.prems obtain x where x: "x \<in> set (rems r1 s)" "t \<in> set (rems r2 x)" by auto
  from Seq.IH(1) [OF x(1)] Seq.IH(2) [OF x(2)] show ?case
    by (rule suffix_order.trans [rotated])
next
  case (Opt r)
  then show ?case by auto
qed

lemma rems_Seq_tail:
  assumes "t \<in> set (rems (Seq r1 r2) s)"
  obtains u where "suffix u s" "t \<in> set (rems r2 u)"
proof -
  from assms obtain x where x: "x \<in> set (rems r1 s)" "t \<in> set (rems r2 x)" by auto
  from rems_suffix [OF x(1)] x(2) that show thesis by blast
qed

lemma rems_Lit: "t \<in> set (rems (Atom (Lit c)) s) \<Longrightarrow> c \<in> set s"
  by (cases s) (auto split: if_splits)

lemma brace_step:
  assumes "t \<in> set (rems (Seq r1 r2) s)"
    and "\<And>u. t \<in> set (rems r2 u) \<Longrightarrow> c \<in> set u"
  shows "c \<in> set s"
proof -
  from assms(1) obtain u where u: "suffix u s" "t \<in> set (rems r2 u)" by (rule rems_Seq_tail)
  from assms(2) [OF u(2)] set_mono_suffix [OF u(1)] show ?thesis by blast
qed

lemma function_pattern_brace:
  assumes "re_match function_pattern s"
  shows "CHR ''{'' \<in> set s"
proof -
  from assms obtain t where t: "t \<in> set (rems function_pattern s)"
    by (cases "rems function_pattern s") (auto simp: re_match_def)
  show ?thesis
    using t unfolding function_pattern_def
    by (elim brace_step) (rule rems_Lit)
qed

lemma re_search_suffix: "re_search r s \<Longrightarrow> \<exists>u. suffix u s \<and> re_match r u"
proof (induction s)
  case Nil
  then show ?case by auto
next
  case (Cons c cs)
  show ?case
  proof (cases "re_match r (c # cs)")
    case True
    then show ?thesis by blast
  next
    case False
    with Cons obtain u where "suffix u cs" "re_match r u" by auto
    then show ?thesis by (blast intro: suffix_ConsI)
  qed
qed

lemma search_brace:
  assumes "re_search function_pattern l"
  shows "CHR ''{'' \<in> set l"
proof -
  from re_search_suffix [OF assms] obtain u where u: "suffix u l" "re_match function_pattern u"
    by blast
  from function_pattern_brace [OF u(2)] set_mono_suffix [OF u(1)] show ?thesis by blast
qed

subsection \<open>The two loops\<close>

lemma body_scan_take:
  "body_scan bc acc ls = (bc', fl) \<Longrightarrow>
     \<exists>k. fl = acc @ take k ls \<and> k \<le> length ls \<and> (ls \<noteq> [] \<longrightarrow> 1 \<le> k)"
proof (induction ls arbitrary: bc acc)
  case Nil
  then show ?case by simp
next
  case (Cons l ls)
  let ?bc = "bc + (int (count_chr l (CHR ''{'')) - int (count_chr l (CHR ''}'')))"
  show ?case
  proof (cases "?bc = 0")
    case True
    with Cons.prems have "fl = acc @ take 1 (l # ls)" by (simp add: Let_def)
    then show ?thesis by (intro exI [of _ 1]) simp
  next
    case False
    with Cons.prems have "body_scan ?bc (acc @ [l]) ls = (bc', fl)" by (simp add: Let_def)
    from Cons.IH [OF this] obtain k where "fl = (acc @ [l]) @ take k ls" "k \<le> length ls" by blast
    then show ?thesis by (intro exI [of _ "Suc k"]) simp
  qed
qed

lemma foldl_append_opt:
  "foldl (\<lambda>fs i. case f i of Some u \<Rightarrow> fs @ [u] | None \<Rightarrow> fs) acc xs = acc @ List.map_filter f xs"
  by (induction xs arbitrary: acc) (auto split: option.splits)

lemma scan_lines_map_filter:
  "scan_lines lines = List.map_filter (candidate lines) [0..<length lines]"
  by (simp add: scan_lines_def foldl_append_opt)

lemma candidate_Some:
  assumes "i < length lines" "candidate lines i = Some u"
  shows "\<exists>k. 1 \<le> k \<and> i + k \<le> length lines \<and> start_line u = i + 1 \<and> end_line u = i + k \<and>
             code u = join_nl (take k (drop i lines))"
proof -
  obtain bc fl where b: "body_scan 0 [] (drop i lines) = (bc, fl)"
    by (cases "body_scan 0 [] (drop i lines)")
  from assms(2) b have u: "u = \<lparr>code = join_nl fl, start_line = i + 1, end_line = i + length fl\<rparr>"
    by (simp add: candidate_def split: if_splits)
  from assms(1) have ne: "drop i lines \<noteq> []" by simp
  from body_scan_take [OF b] ne obtain k where
    k: "fl = take k (drop i lines)" "k \<le> length (drop i lines)" "1 \<le> k" by auto
  then have "length fl = k" by simp
  with u k show ?thesis by (intro exI [of _ k]) auto
qed

lemma split_acc_set: "l \<in> set (split_acc cur s) \<Longrightarrow> set l \<subseteq> set cur \<union> set s"
proof (induction s arbitrary: cur)
  case Nil
  then show ?case by simp
next
  case (Cons c cs)
  show ?case
  proof (cases "c = NL")
    case True
    with Cons.prems have "l = cur \<or> l \<in> set (split_acc [] cs)" by simp
    then show ?thesis using Cons.IH [of "[]"] by auto
  next
    case False
    with Cons.prems have "l \<in> set (split_acc (cur @ [c]) cs)" by simp
    from Cons.IH [OF this] show ?thesis by auto
  qed
qed

lemma split_nl_set: "l \<in> set (split_nl s) \<Longrightarrow> set l \<subseteq> set s"
  using split_acc_set [of l "[]" s] by (simp add: split_nl_def)

lemma set_map_filter: "set (List.map_filter f xs) = {u. \<exists>x\<in>set xs. f x = Some u}"
  by (induction xs) (auto split: option.splits)

lemma scan_lines_set:
  "set (scan_lines lines) = {u. \<exists>i<length lines. candidate lines i = Some u}"
  by (auto simp: scan_lines_map_filter set_map_filter)

lemma scan_lines_starts:
  "map start_line (scan_lines lines) =
     map Suc (filter (\<lambda>i. candidate lines i \<noteq> None) [0..<length lines])"
proof -
  have "\<And>i. i \<in> set (filter (\<lambda>i. candidate lines i \<noteq> None) [0..<length lines]) \<Longrightarrow>
          start_line (the (candidate lines i)) = Suc i"
    using candidate_Some by fastforce
  then show ?thesis
    by (simp add: scan_lines_map_filter List.map_filter_def)
qed

lemma scan_lines_sorted: "sorted_wrt (<) (map start_line (scan_lines lines))"
  unfolding scan_lines_starts
  by (simp add: sorted_wrt_map sorted_wrt_filter)

lemma unit_line_count:
  assumes "1 \<le> k" "i + k \<le> length (split_nl src)"
  shows "line_count (join_nl (take k (drop i (split_nl src)))) = k"
proof -
  let ?fl = "take k (drop i (split_nl src))"
  from assms have len: "length ?fl = k" by simp
  with assms(1) have ne: "?fl \<noteq> []" by auto
  have "\<forall>l\<in>set ?fl. NL \<notin> set l"
    by (meson in_set_dropD in_set_takeD split_nl_lines)
  from split_nl_join [OF ne this] len show ?thesis by (simp add: line_count_def)
qed

subsection \<open>The units returned\<close>

lemma extract_cases:
  "extract_functions src = scan_lines (split_nl src) \<and> scan_lines (split_nl src) \<noteq> [] \<or>
   extract_functions src = [\<lparr>code = src, start_line = 1, end_line = length (split_nl src)\<rparr>] \<and>
     scan_lines (split_nl src) = []"
  by (simp add: extract_functions_def Let_def)

lemma scan_unit_ok:
  assumes "u \<in> set (scan_lines (split_nl src))"
  shows "1 \<le> start_line u \<and> start_line u \<le> end_line u \<and> end_line u \<le> length (split_nl src) \<and>
         line_count (code u) = end_line u - start_line u + 1"
proof -
  from assms obtain i where i: "i < length (split_nl src)" "candidate (split_nl src) i = Some u"
    by (auto simp: scan_lines_set)
  from candidate_Some [OF i] obtain k where k: "1 \<le> k" "i + k \<le> length (split_nl src)"
    "start_line u = i + 1" "end_line u = i + k" "code u = join_nl (take k (drop i (split_nl src)))"
    by blast
  from unit_line_count [OF k(1,2)] k show ?thesis by simp
qed

section \<open>Properties of the fusion loop\<close>

subsection \<open>One index\<close>

lemma bind_exn_Inr: "bind_exn m f = Inr r \<longleftrightarrow> (\<exists>v. m = Inr v \<and> f v = Inr r)"
  by (cases m) (simp_all add: bind_exn_def)

lemma getkey_Inr: "getkey k entry = Inr v \<longleftrightarrow> entry = Some v"
  by (cases entry) (simp_all add: getkey_def)

lemma getitem_Inr: "getitem xs i = Inr v \<longleftrightarrow> i < length xs \<and> v = xs ! i"
  by (auto simp: getitem_def)










lemma if_Inr_Some:
  "(if c then m else Inr None) = Inr (Some v) \<longleftrightarrow> c \<and> m = Inr (Some v)"
  by simp

lemma if_Inr_None:
  "(if c then bind_exn m f else Inr None) = Inr None \<longleftrightarrow> \<not> c \<or> bind_exn m f = Inr None"
  by simp

lemma vuln_at_Some:
  assumes "vuln_at P vr cr sr i f = Inr (Some v)"
  shows "\<exists>preds line_scores vuln_line cwe cwe_prob sev sscore confidence probs pf sf.
           batch_vul_pred vr = Some preds \<and> i < length preds \<and> preds ! i = 1 \<and>
           get_or (batch_line_scores vr) i [] = Inr line_scores \<and>
           vuln_line_of f line_scores = Inr vuln_line \<and>
           get_or (cwe_id cr) i ''CWE-119'' = Inr cwe \<and>
           get_or (cwe_id_prob cr) i (VFloat (Fin (1 / 2))) = Inr cwe_prob \<and>
           get_or (batch_sev_class sr) i ''Medium'' = Inr sev \<and>
           get_or (batch_sev_score sr) i (VFloat (Fin 5)) = Inr sscore \<and>
           py_format_2f cwe_prob = Inr confidence \<and>
           batch_vul_pred_prob vr = Some probs \<and> i < length probs \<and>
           py_float P (probs ! i) = Inr pf \<and>
           py_float P sscore = Inr sf \<and>
           v = \<lparr>id' = ''STATIC-'' @ str_nat (i + 1), type' = ''static'', severity = sev,
                message = ''Potential '' @ cwe @ '' vulnerability detected'', line = vuln_line,
                cweId = cwe,
                cweDescription = cwe @ '' vulnerability with '' @ confidence @ '' confidence'',
                source = ''CodeGuard Static Analysis'', probability = pf,
                severityScore = sf\<rparr>"
  using assms unfolding vuln_at_def
  apply (simp only: bind_exn_Inr if_Inr_Some getkey_Inr getitem_Inr sum.inject option.inject)
  apply (elim exE conjE)
  apply (intro exI conjI)
  apply (assumption | simp only:)+
  done

lemma vuln_at_None:
  assumes "vuln_at P vr cr sr i f = Inr None"
  shows "\<exists>preds. batch_vul_pred vr = Some preds \<and> i < length preds \<and> preds ! i \<noteq> 1"
  using assms unfolding vuln_at_def
  apply (simp only: bind_exn_Inr if_Inr_None getkey_Inr getitem_Inr)
  apply (elim exE conjE disjE)
   apply blast
  apply (simp only: bind_exn_Inr sum.inject option.distinct)
  done

subsection \<open>The loop\<close>

lemma fuse_loop_Inr:
  assumes "fuse_loop P vr cr sr i fs acc = Inr out"
  shows "\<exists>new. out = acc @ new \<and>
           list_all2 (\<lambda>p v. vuln_at P vr cr sr (fst p) (snd p) = Inr (Some v))
             (filter (\<lambda>p. vuln_at P vr cr sr (fst p) (snd p) \<noteq> Inr None) (List.enumerate i fs)) new \<and>
           (\<forall>p \<in> set (List.enumerate i fs). \<exists>r. vuln_at P vr cr sr (fst p) (snd p) = Inr r)"
  using assms
proof (induction fs arbitrary: i acc)
  case Nil
  then show ?case by simp
next
  case (Cons f fs)
  show ?case
  proof (cases "vuln_at P vr cr sr i f")
    case (Inl e)
    with Cons.prems show ?thesis by simp
  next
    case (Inr r)
    show ?thesis
    proof (cases r)
      case None
      with Inr Cons.prems have "fuse_loop P vr cr sr (Suc i) fs acc = Inr out" by simp
      from Cons.IH [OF this] obtain new where
        new: "out = acc @ new"
          "list_all2 (\<lambda>p v. vuln_at P vr cr sr (fst p) (snd p) = Inr (Some v))
             (filter (\<lambda>p. vuln_at P vr cr sr (fst p) (snd p) \<noteq> Inr None) (List.enumerate (Suc i) fs)) new"
          "\<forall>p \<in> set (List.enumerate (Suc i) fs). \<exists>r. vuln_at P vr cr sr (fst p) (snd p) = Inr r"
        by blast
      show ?thesis
        apply (rule exI [of _ new])
        using new Inr None apply simp
        done
    next
      case (Some v)
      with Inr Cons.prems have "fuse_loop P vr cr sr (Suc i) fs (acc @ [v]) = Inr out" by simp
      from Cons.IH [OF this] obtain new where
        new: "out = (acc @ [v]) @ new"
          "list_all2 (\<lambda>p v. vuln_at P vr cr sr (fst p) (snd p) = Inr (Some v))
             (filter (\<lambda>p. vuln_at P vr cr sr (fst p) (snd p) \<noteq> Inr None) (List.enumerate (Suc i) fs)) new"
          "\<forall>p \<in> set (List.enumerate (Suc i) fs). \<exists>r. vuln_at P vr cr sr (fst p) (snd p) = Inr r"
        by blast
      show ?thesis
        apply (rule exI [of _ "v # new"])
        using new Inr Some apply simp
        done
    qed
  qed
qed



lemma fuse_Inr:
  assumes "fuse P vr cr sr fs = Inr out"
  shows "list_all2 (\<lambda>p v. vuln_at P vr cr sr (fst p) (snd p) = Inr (Some v))
           (filter (\<lambda>p. vuln_at P vr cr sr (fst p) (snd p) \<noteq> Inr None) (List.enumerate 0 fs)) out"
    and "\<forall>p \<in> set (List.enumerate 0 fs). \<exists>r. vuln_at P vr cr sr (fst p) (snd p) = Inr r"
proof -
  from assms have "fuse_loop P vr cr sr 0 fs [] = Inr out" by (simp add: fuse_def)
  from fuse_loop_Inr [OF this] show
    "list_all2 (\<lambda>p v. vuln_at P vr cr sr (fst p) (snd p) = Inr (Some v))
           (filter (\<lambda>p. vuln_at P vr cr sr (fst p) (snd p) \<noteq> Inr None) (List.enumerate 0 fs)) out"
    and "\<forall>p \<in> set (List.enumerate 0 fs). \<exists>r. vuln_at P vr cr sr (fst p) (snd p) = Inr r"
    by simp_all
qed

lemma vuln_at_None_pred:
  assumes "vuln_at P vr cr sr i f = Inr None" "batch_vul_pred vr = Some preds"
  shows "preds ! i \<noteq> 1"
proof -
  from vuln_at_None [OF assms(1)] obtain preds' where
    "batch_vul_pred vr = Some preds'" "preds' ! i \<noteq> 1" by (elim exE conjE)
  with assms(2) show ?thesis by simp
qed

lemma vuln_at_Some_pred:
  assumes "vuln_at P vr cr sr i f = Inr (Some v)" "batch_vul_pred vr = Some preds"
  shows "preds ! i = 1"
proof -
  from vuln_at_Some [OF assms(1)] obtain preds' where
    "batch_vul_pred vr = Some preds'" "preds' ! i = 1" by (elim exE conjE)
  with assms(2) show ?thesis by simp
qed

lemma vulnerable_filter:
  assumes "\<forall>p \<in> set ps. \<exists>r. vuln_at P vr cr sr (fst p) (snd p) = Inr r"
    and "batch_vul_pred vr = Some preds"
  shows "filter (\<lambda>p. vuln_at P vr cr sr (fst p) (snd p) \<noteq> Inr None) ps =
         filter (\<lambda>p. preds ! fst p = 1) ps"
proof (rule filter_cong [OF refl])
  fix p assume "p \<in> set ps"
  with assms(1) obtain r where r: "vuln_at P vr cr sr (fst p) (snd p) = Inr r" by blast
  show "(vuln_at P vr cr sr (fst p) (snd p) \<noteq> Inr None) = (preds ! fst p = 1)"
  proof (cases r)
    case None
    with r have "vuln_at P vr cr sr (fst p) (snd p) = Inr None" by simp
    from this vuln_at_None_pred [OF this assms(2)] show ?thesis by simp
  next
    case (Some v)
    with r have "vuln_at P vr cr sr (fst p) (snd p) = Inr (Some v)" by simp
    from this vuln_at_Some_pred [OF this assms(2)] show ?thesis by simp
  qed
qed

subsection \<open>Identifiers and positions\<close>




lemma list_all2_map_eq:
  assumes "list_all2 P xs ys" "\<And>x y. P x y \<Longrightarrow> g y = h x"
  shows "map g ys = map h xs"
  using assms by (induction rule: list_all2_induct) simp_all


lemma list_all2_set:
  assumes "list_all2 P xs ys" "y \<in> set ys"
  shows "\<exists>x\<in>set xs. P x y"
  using assms by (induction rule: list_all2_induct) auto



lemma vuln_at_Some_id:
  assumes "vuln_at P vr cr sr i f = Inr (Some v)"
  shows "id' v = ''STATIC-'' @ str_nat (i + 1)"
proof -
  from vuln_at_Some [OF assms] obtain sev cwe vuln_line confidence pf sf where
    "v = \<lparr>id' = ''STATIC-'' @ str_nat (i + 1), type' = ''static'', severity = sev,
                message = ''Potential '' @ cwe @ '' vulnerability detected'', line = vuln_line,
                cweId = cwe,
                cweDescription = cwe @ '' vulnerability with '' @ confidence @ '' confidence'',
                source = ''CodeGuard Static Analysis'', probability = pf,
                severityScore = sf\<rparr>"
    by (elim exE conjE)
  then show ?thesis by (simp only: vulnerability.simps)
qed

lemma fuse_vulnerable:
  assumes "fuse P vr cr sr fs = Inr out" "batch_vul_pred vr = Some preds"
  shows "list_all2 (\<lambda>p v. vuln_at P vr cr sr (fst p) (snd p) = Inr (Some v))
           (filter (\<lambda>p. preds ! fst p = 1) (List.enumerate 0 fs)) out"
  using fuse_Inr(1) [OF assms(1)] vulnerable_filter [OF fuse_Inr(2) [OF assms(1)] assms(2)]
  by simp


lemma get_or_None: "get_or None i d = Inr x \<longleftrightarrow> x = d"
  by (auto simp: get_or_def)




lemma fmt_2f_half: "fmt_2f (Fin (1 / 2)) = ''0.50''"
  by code_simp

lemma py_format_2f_default: "py_format_2f (VFloat (Fin (1 / 2))) = Inr ''0.50''"
  by (simp only: py_format_2f.simps fmt_2f_half)



lemma enumerate_mem:
  "p \<in> set (List.enumerate 0 xs) \<Longrightarrow> fst p < length xs \<and> snd p = xs ! fst p"
  by (cases p) (simp add: in_set_enumerate_eq)


lemma fuse_member:
  assumes "fuse P vr cr sr fs = Inr out" "v \<in> set out"
  shows "\<exists>i<length fs. vuln_at P vr cr sr i (fs ! i) = Inr (Some v)"
proof -
  from list_all2_set [OF fuse_Inr(1) [OF assms(1)] assms(2)] obtain p where
    p: "p \<in> set (List.enumerate 0 fs)" "vuln_at P vr cr sr (fst p) (snd p) = Inr (Some v)"
    by auto
  from enumerate_mem [OF p(1)] p(2) show ?thesis by auto
qed



lemma finding_defaults:
  assumes "vuln_at P vr cr sr i f = Inr (Some v)"
  shows "(batch_line_scores vr = None \<longrightarrow> line v = start_line f) \<and>
         (cwe_id cr = None \<longrightarrow> cweId v = ''CWE-119'') \<and>
         (cwe_id_prob cr = None \<longrightarrow>
            cweDescription v = cweId v @ '' vulnerability with 0.50 confidence'') \<and>
         (batch_sev_class sr = None \<longrightarrow> severity v = ''Medium'') \<and>
         (batch_sev_score sr = None \<longrightarrow> severityScore v = Fin 5) \<and>
         id' v = ''STATIC-'' @ str_nat (i + 1) \<and>
         (\<exists>probs. batch_vul_pred_prob vr = Some probs \<and> i < length probs \<and>
            py_float P (probs ! i) = Inr (probability v))"
proof -
  from vuln_at_Some [OF assms] obtain line_scores vuln_line cwe cwe_prob sev sscore confidence
    probs pf sf where
    ls: "get_or (batch_line_scores vr) i [] = Inr line_scores"
      and vl: "vuln_line_of f line_scores = Inr vuln_line"
      and c: "get_or (cwe_id cr) i ''CWE-119'' = Inr cwe"
      and cp: "get_or (cwe_id_prob cr) i (VFloat (Fin (1 / 2))) = Inr cwe_prob"
      and s: "get_or (batch_sev_class sr) i ''Medium'' = Inr sev"
      and ss: "get_or (batch_sev_score sr) i (VFloat (Fin 5)) = Inr sscore"
      and cf: "py_format_2f cwe_prob = Inr confidence"
      and pr: "batch_vul_pred_prob vr = Some probs" "i < length probs"
      and pf: "py_float P (probs ! i) = Inr pf"
      and sf: "py_float P sscore = Inr sf"
      and v: "v = \<lparr>id' = ''STATIC-'' @ str_nat (i + 1), type' = ''static'', severity = sev,
                message = ''Potential '' @ cwe @ '' vulnerability detected'', line = vuln_line,
                cweId = cwe,
                cweDescription = cwe @ '' vulnerability with '' @ confidence @ '' confidence'',
                source = ''CodeGuard Static Analysis'', probability = pf,
                severityScore = sf\<rparr>"
    by (elim exE conjE)
  have sel: "cweId v = cwe" "severity v = sev" "severityScore v = sf"
    "cweDescription v = cwe @ '' vulnerability with '' @ confidence @ '' confidence''"
    "id' v = ''STATIC-'' @ str_nat (i + 1)" "probability v = pf" "line v = vuln_line"
    by (simp_all only: v vulnerability.simps)
  have 0: "batch_line_scores vr = None \<longrightarrow> line v = start_line f"
  proof
    assume "batch_line_scores vr = None"
    with ls have "line_scores = []" by (simp add: get_or_None)
    with vl have "vuln_line = start_line f" by (simp add: vuln_line_of_def)
    with sel(7) show "line v = start_line f" by simp
  qed
  have 1: "cwe_id cr = None \<longrightarrow> cweId v = ''CWE-119''"
  proof
    assume "cwe_id cr = None"
    with c have "cwe = ''CWE-119''" by (simp add: get_or_None)
    with sel(1) show "cweId v = ''CWE-119''" by simp
  qed
  have 2: "cwe_id_prob cr = None \<longrightarrow>
            cweDescription v = cweId v @ '' vulnerability with 0.50 confidence''"
  proof
    assume "cwe_id_prob cr = None"
    with cp have "cwe_prob = VFloat (Fin (1 / 2))" by (simp add: get_or_None)
    with cf have "confidence = ''0.50''" by (simp only: py_format_2f_default sum.inject)
    with sel(1,4) show "cweDescription v = cweId v @ '' vulnerability with 0.50 confidence''"
      by simp
  qed
  have 3: "batch_sev_class sr = None \<longrightarrow> severity v = ''Medium''"
  proof
    assume "batch_sev_class sr = None"
    with s have "sev = ''Medium''" by (simp add: get_or_None)
    with sel(2) show "severity v = ''Medium''" by simp
  qed
  have 4: "batch_sev_score sr = None \<longrightarrow> severityScore v = Fin 5"
  proof
    assume "batch_sev_score sr = None"
    with ss have "sscore = VFloat (Fin 5)" by (simp add: get_or_None)
    with sf have "sf = Fin 5" by simp
    with sel(3) show "severityScore v = Fin 5" by simp
  qed
  have 5: "\<exists>probs. batch_vul_pred_prob vr = Some probs \<and> i < length probs \<and>
            py_float P (probs ! i) = Inr (probability v)"
    using pr pf sel(6) by simp
  from 0 1 2 3 4 sel(5) 5 show ?thesis by (intro conjI)
qed

subsection \<open>Conversions and formats on samples\<close>

text \<open>
  A probability that is \<^verbatim>\<open>None\<close> makes \<^verbatim>\<open>float\<close> raise; a severity score that is an
  \<^verbatim>\<open>int\<close> of 55 bits is rounded to 53 bits; the format rounds ties to even and keeps
  the sign of a negative value that rounds to zero.
\<close>

lemma fuse_none_prob:
  "fuse no_float_str vuln_none_prob cwe_empty sev_empty sample_unit5 =
     Inl (TypeError (''float() argument must be a string or a real number, not '' @
                     [CHR 0x27] @ ''NoneType'' @ [CHR 0x27]))"
  by code_simp

lemma fuse_big_score:
  "map severityScore (projr (fuse no_float_str vuln_scored cwe_empty sev_big sample_unit5)) =
     [Fin (2 ^ 54 + 4)]"
  by code_simp

lemma py_format_2f_int: "py_format_2f (VInt (2 ^ 53 + 1)) = Inr ''9007199254740992.00''"
  by code_simp

lemma fmt_2f_ties:
  "fmt_2f (Fin (1 / 8)) = ''0.12'' \<and> fmt_2f (Fin (3 / 8)) = ''0.38'' \<and>
   fmt_2f (Fin (- 1 / 1000)) = ''-0.00''"
  by code_simp

section \<open>Properties of \<^verbatim>\<open>analyze_file\<close>\<close>

lemma extract_nonempty: "extract_functions src \<noteq> []"
  using extract_cases [of src] by auto

lemma analyze_try_unfold:
  "analyze_try P read_file main main_cwe main_sev path =
     bind_exn (read_file path) (\<lambda>src.
     bind_exn (main (map code (extract_functions src)) False) (\<lambda>vuln_res.
     bind_exn (main_cwe (map code (extract_functions src)) False) (\<lambda>cwe_res.
     bind_exn (main_sev (map code (extract_functions src)) False) (\<lambda>sev_res.
     bind_exn (fuse P vuln_res cwe_res sev_res (extract_functions src)) (\<lambda>vulns.
     Inr \<lparr>vulnerabilities = vulns, errors = []\<rparr>)))))"
  by (simp add: analyze_try_def Let_def extract_nonempty)

lemma bind_exn_Inl: "bind_exn (Inl e) f = Inl e"
  by (simp add: bind_exn_def)

lemma bind_exn_Inr_val: "bind_exn (Inr v) f = f v"
  by (simp add: bind_exn_def)

lemma analyze_try_Inr:
  assumes "analyze_try P read_file main main_cwe main_sev path = Inr r"
  shows "errors r = []"
proof -
  from assms obtain vulns where "r = \<lparr>vulnerabilities = vulns, errors = []\<rparr>"
    unfolding analyze_try_unfold
    by (simp only: bind_exn_Inr sum.inject) blast
  then show ?thesis by simp
qed

section \<open>The claims on the extractor\<close>

text \<open>
  C6. For every input string, \<open>extract_functions\<close> returns a non-empty list of units, and
  every unit has \<open>start_line \<le> end_line\<close>, lies within the lines of the file
  (\<open>1 \<le> start_line\<close>, \<open>end_line\<close> at most the number of lines) and has a text of
  \<open>end_line - start_line + 1\<close> lines.
\<close>

theorem extract_total:
  "extract_functions src \<noteq> [] \<and>
   (\<forall>u \<in> set (extract_functions src).
      1 \<le> start_line u \<and> start_line u \<le> end_line u \<and> end_line u \<le> length (split_nl src) \<and>
      line_count (code u) = end_line u - start_line u + 1)"
proof -
  from extract_cases [of src] show ?thesis
  proof
    assume "extract_functions src = scan_lines (split_nl src) \<and> scan_lines (split_nl src) \<noteq> []"
    then show ?thesis using scan_unit_ok [of _ src] by auto
  next
    assume "extract_functions src = [\<lparr>code = src, start_line = 1, end_line = length (split_nl src)\<rparr>] \<and>
      scan_lines (split_nl src) = []"
    with split_nl_length [of src] show ?thesis by (simp add: line_count_def)
  qed
qed

theorem extract_total_witness:
  "extract_functions sample_add =
     [\<lparr>code = join_nl [''int add(int a,int b){'', ''return a+b;'', ''}''],
       start_line = 1, end_line = 3\<rparr>] \<and>
   length (split_nl sample_add) = 4 \<and>
   line_count (join_nl [''int add(int a,int b){'', ''return a+b;'', ''}'']) = 3"
proof -
  let ?u = "\<lparr>code = join_nl [''int add(int a,int b){'', ''return a+b;'', ''}''],
             start_line = 1, end_line = 3\<rparr>"
  have e: "extract_functions sample_add = [?u]"
    by code_simp
  have l: "length (split_nl sample_add) = 4" by code_simp
  from e have "?u \<in> set (extract_functions sample_add)" by simp
  with extract_total [of sample_add] have
    "line_count (code ?u) = end_line ?u - start_line ?u + 1" by blast
  with e l show ?thesis by simp
qed

text \<open>
  C7. For every source text without a brace character, \<open>extract_functions\<close> returns
  exactly one unit: the whole input, from line 1 to the number of lines.
\<close>

theorem extract_no_brace:
  assumes "CHR ''{'' \<notin> set src" "CHR ''}'' \<notin> set src"
  shows "extract_functions src = [\<lparr>code = src, start_line = 1, end_line = line_count src\<rparr>]"
proof -
  have "candidate (split_nl src) i = None" if "i < length (split_nl src)" for i
  proof -
    from that have "split_nl src ! i \<in> set (split_nl src)" by simp
    from split_nl_set [OF this] assms(1) have "CHR ''{'' \<notin> set (split_nl src ! i)" by blast
    with search_brace have "\<not> re_search function_pattern (split_nl src ! i)" by blast
    then show ?thesis by (simp add: candidate_def)
  qed
  then have "set (scan_lines (split_nl src)) = {}" by (auto simp: scan_lines_set)
  then show ?thesis by (simp add: extract_functions_def line_count_def)
qed

theorem extract_no_brace_witness:
  "CHR ''{'' \<notin> set sample_plain \<and> CHR ''}'' \<notin> set sample_plain \<and>
   extract_functions sample_plain = [\<lparr>code = sample_plain, start_line = 1, end_line = 2\<rparr>]"
proof -
  have a: "CHR ''{'' \<notin> set sample_plain" by code_simp
  have b: "CHR ''}'' \<notin> set sample_plain" by code_simp
  have c: "line_count sample_plain = 2" by code_simp
  from extract_no_brace [OF a b] a b c show ?thesis by simp
qed

text \<open>
  C10. For every input string, the units that \<open>extract_functions\<close> returns have strictly
  increasing start lines.
\<close>

theorem extract_starts_increasing:
  "sorted_wrt (<) (map start_line (extract_functions src))"
  using extract_cases [of src] scan_lines_sorted [of "split_nl src"] by auto

text \<open>
  C1, as stated, fails: the scan resumes at the line after the candidate line, not after
  the end of the unit, so the nested block of \<open>sample_nested\<close> (lines 2 to 3) is emitted
  as a unit of its own inside the unit of lines 1 to 4.
\<close>

theorem extract_overlap_counterexample:
  "extract_functions sample_nested =
     [\<lparr>code = join_nl [''void f() {'', ''  if (x) {'', ''  }'', ''}''], start_line = 1, end_line = 4\<rparr>,
      \<lparr>code = join_nl [''  if (x) {'', ''  }''], start_line = 2, end_line = 3\<rparr>]"
  by code_simp

text \<open>
  C1, amended. Every line is examined as a candidate, whether or not it lies inside the
  span of a unit already emitted: whenever the loop body at line index \<open>i\<close> yields a
  unit, that unit is among the units returned and starts at line \<open>i + 1\<close>; no two
  units returned share a start line.
\<close>

theorem extract_every_candidate:
  assumes "i < length (split_nl src)" "candidate (split_nl src) i = Some u"
  shows "u \<in> set (extract_functions src) \<and> start_line u = i + 1 \<and>
         distinct (map start_line (extract_functions src))"
proof -
  from assms have m: "u \<in> set (scan_lines (split_nl src))" by (auto simp: scan_lines_set)
  then have "scan_lines (split_nl src) \<noteq> []" by auto
  then have e: "extract_functions src = scan_lines (split_nl src)"
    by (simp add: extract_functions_def Let_def)
  from candidate_Some [OF assms] have s: "start_line u = i + 1" by blast
  have "distinct (map start_line (scan_lines (split_nl src)))"
    using scan_lines_sorted [of "split_nl src"] by (simp add: strict_sorted_iff)
  with e m s show ?thesis by simp
qed

theorem extract_every_candidate_witness:
  "1 < length (split_nl sample_nested) \<and>
   candidate (split_nl sample_nested) 1 =
     Some \<lparr>code = join_nl [''  if (x) {'', ''  }''], start_line = 2, end_line = 3\<rparr> \<and>
   \<lparr>code = join_nl [''  if (x) {'', ''  }''], start_line = 2, end_line = 3\<rparr>
     \<in> set (extract_functions sample_nested)"
proof -
  have a: "1 < length (split_nl sample_nested)" by code_simp
  have b: "candidate (split_nl sample_nested) 1 =
     Some \<lparr>code = join_nl [''  if (x) {'', ''  }''], start_line = 2, end_line = 3\<rparr>"
    by code_simp
  from extract_every_candidate [OF a b] a b show ?thesis by simp
qed

section \<open>The claims on the fusion loop\<close>

text \<open>
  C2, as stated, fails: the identifier counts the units, not the findings. With two
  units of which only the second is vulnerable, the first finding emitted is
  \<^verbatim>\<open>STATIC-2\<close>.
\<close>

theorem fuse_ids_counterexample:
  "fuse no_float_str vuln_second cwe_empty sev_empty sample_units =
     Inr [\<lparr>id' = ''STATIC-2'', type' = ''static'', severity = ''Medium'',
           message = ''Potential CWE-119 vulnerability detected'', line = 2, cweId = ''CWE-119'',
           cweDescription = ''CWE-119 vulnerability with 0.50 confidence'',
           source = ''CodeGuard Static Analysis'', probability = Fin (9 / 10),
           severityScore = Fin 5\<rparr>]"
  by code_simp

text \<open>
  C2, amended. In every fusion run that returns, the identifiers of the findings are, in
  order, \<^verbatim>\<open>STATIC-\<close> followed by \<open>i + 1\<close> for the 0-based indices \<open>i\<close> of the vulnerable
  units: the identifier is the position of the unit, whatever was skipped before it.
\<close>

theorem fuse_ids:
  assumes "fuse P vr cr sr fs = Inr out" "batch_vul_pred vr = Some preds"
  shows "map id' out =
           map (\<lambda>p. ''STATIC-'' @ str_nat (fst p + 1))
               (filter (\<lambda>p. preds ! fst p = 1) (List.enumerate 0 fs))"
  by (rule list_all2_map_eq [OF fuse_vulnerable [OF assms]]) (rule vuln_at_Some_id)

theorem fuse_ids_witness:
  "fuse no_float_str vuln_second cwe_empty sev_empty sample_units = Inr [finding_second] \<and>
   batch_vul_pred vuln_second = Some [0, 1] \<and>
   map (\<lambda>p. ''STATIC-'' @ str_nat (fst p + 1))
       (filter (\<lambda>p. [0, 1 :: int] ! fst p = 1) (List.enumerate 0 sample_units)) = [''STATIC-2'']"
proof -
  have a: "fuse no_float_str vuln_second cwe_empty sev_empty sample_units = Inr [finding_second]"
    by code_simp
  have b: "batch_vul_pred vuln_second = Some [0, 1]" by (simp add: vuln_second_def)
  have c: "map id' [finding_second] = [''STATIC-2'']" by (simp add: finding_second_def)
  from fuse_ids [OF a b] have
    "map (\<lambda>p. ''STATIC-'' @ str_nat (fst p + 1))
       (filter (\<lambda>p. [0, 1 :: int] ! fst p = 1) (List.enumerate 0 sample_units)) =
     map id' [finding_second]"
    by (rule sym)
  with a b c show ?thesis by (simp only: simp_thms)
qed




text \<open>
  C5, as stated, fails for the probability: the key \<^verbatim>\<open>batch_vul_pred_prob\<close> has no
  default, and without it the loop raises \<^verbatim>\<open>KeyError\<close> at the first vulnerable unit
  instead of emitting a finding of probability 0.0.
\<close>

theorem fuse_absent_prob_counterexample:
  "fuse no_float_str vuln_no_prob cwe_empty sev_empty sample_units =
     Inl (KeyError ''batch_vul_pred_prob'')"
  by code_simp

text \<open>
  C5, amended. Every finding of a fusion run that returns uses the literal \<^verbatim>\<open>CWE-119\<close>
  when the key \<^verbatim>\<open>cwe_id\<close> is absent, the confidence 0.5 (printed \<^verbatim>\<open>0.50\<close> in the
  description) when \<^verbatim>\<open>cwe_id_prob\<close> is absent, the class \<^verbatim>\<open>Medium\<close> when
  \<^verbatim>\<open>batch_sev_class\<close> is absent and the score 5.0 when \<^verbatim>\<open>batch_sev_score\<close> is absent; its
  probability has no default: it is \<^verbatim>\<open>float\<close> of the entry of \<^verbatim>\<open>batch_vul_pred_prob\<close> at
  the index of the finding's unit.
\<close>

theorem fuse_defaults:
  assumes "fuse P vr cr sr fs = Inr out" "v \<in> set out"
  shows "(cwe_id cr = None \<longrightarrow> cweId v = ''CWE-119'') \<and>
         (cwe_id_prob cr = None \<longrightarrow>
            cweDescription v = cweId v @ '' vulnerability with 0.50 confidence'') \<and>
         (batch_sev_class sr = None \<longrightarrow> severity v = ''Medium'') \<and>
         (batch_sev_score sr = None \<longrightarrow> severityScore v = Fin 5) \<and>
         (\<exists>probs i. batch_vul_pred_prob vr = Some probs \<and> i < length probs \<and> i < length fs \<and>
            id' v = ''STATIC-'' @ str_nat (i + 1) \<and>
            py_float P (probs ! i) = Inr (probability v))"
proof -
  from fuse_member [OF assms] obtain i where
    i: "i < length fs" "vuln_at P vr cr sr i (fs ! i) = Inr (Some v)" by blast
  from finding_defaults [OF i(2)] i(1) show ?thesis by blast
qed

theorem fuse_defaults_witness:
  "fuse no_float_str vuln_second cwe_empty sev_empty sample_units = Inr [finding_second] \<and>
   cwe_id cwe_empty = None \<and> cwe_id_prob cwe_empty = None \<and>
   batch_sev_class sev_empty = None \<and> batch_sev_score sev_empty = None \<and>
   cweId finding_second = ''CWE-119'' \<and>
   cweDescription finding_second = cweId finding_second @ '' vulnerability with 0.50 confidence'' \<and>
   severity finding_second = ''Medium'' \<and> severityScore finding_second = Fin 5"
proof -
  have a: "fuse no_float_str vuln_second cwe_empty sev_empty sample_units = Inr [finding_second]"
    by code_simp
  have b: "finding_second \<in> set [finding_second]" by simp
  have c: "cwe_id cwe_empty = None" "cwe_id_prob cwe_empty = None"
    by (simp_all add: cwe_empty_def)
  have d: "batch_sev_class sev_empty = None" "batch_sev_score sev_empty = None"
    by (simp_all add: sev_empty_def)
  from fuse_defaults [OF a b] a c d show ?thesis by blast
qed




section \<open>The claims on \<^verbatim>\<open>analyze_file\<close>\<close>

text \<open>
  C8, as stated, fails: the handler is \<^verbatim>\<open>except Exception\<close>, so a fault that is not an
  instance of \<^verbatim>\<open>Exception\<close>, here a \<^verbatim>\<open>SystemExit(1)\<close> raised by the first classifier,
  is not caught and reaches the caller.
\<close>

theorem analyze_file_propagates_counterexample:
  "analyze_file no_float_str (\<lambda>p. Inr sample_plain) (\<lambda>codes gpu. Inl (BaseFault ''1''))
     (\<lambda>codes gpu. Inr cwe_empty) (\<lambda>codes gpu. Inr sev_empty) ''plain.c'' =
   Inl (BaseFault ''1'')"
  by (simp add: analyze_file_def analyze_try_unfold bind_exn_def)

text \<open>
  C8, amended. For every file path, an exception \<open>e\<close> raised by a step of the analysis
  (reading the file, a classifier, the fusion loop; the extractor raises none) that is
  an instance of \<^verbatim>\<open>Exception\<close> is caught: \<open>analyze_file\<close> returns no finding and the single
  error \<^verbatim>\<open>Analysis failed: \<close> followed by \<^verbatim>\<open>str(e)\<close>. One that is not an instance of
  \<^verbatim>\<open>Exception\<close> (\<^verbatim>\<open>SystemExit\<close>, \<^verbatim>\<open>KeyboardInterrupt\<close>, \<^verbatim>\<open>GeneratorExit\<close>) is not caught
  and reaches the caller.
\<close>

theorem analyze_file_catches:
  assumes "read_file path = Inl e \<or>
     (\<exists>src. read_file path = Inr src \<and>
        (main (map code (extract_functions src)) False = Inl e \<or>
         (\<exists>vr. main (map code (extract_functions src)) False = Inr vr \<and>
            (main_cwe (map code (extract_functions src)) False = Inl e \<or>
             (\<exists>cr. main_cwe (map code (extract_functions src)) False = Inr cr \<and>
                (main_sev (map code (extract_functions src)) False = Inl e \<or>
                 (\<exists>sr. main_sev (map code (extract_functions src)) False = Inr sr \<and>
                    fuse P vr cr sr (extract_functions src) = Inl e)))))))"
  shows "(is_Exception e \<longrightarrow>
            analyze_file P read_file main main_cwe main_sev path =
              Inr \<lparr>vulnerabilities = [], errors = [''Analysis failed: '' @ str_exn e]\<rparr>) \<and>
         (\<not> is_Exception e \<longrightarrow>
            analyze_file P read_file main main_cwe main_sev path = Inl e)"
proof -
  from assms have "analyze_try P read_file main main_cwe main_sev path = Inl e"
    unfolding analyze_try_unfold
    by (elim disjE exE conjE) (simp_all only: bind_exn_Inl bind_exn_Inr_val)
  then show ?thesis by (simp add: analyze_file_def)
qed

theorem analyze_file_catches_witness:
  "fuse no_float_str vuln_no_pred cwe_empty sev_empty (extract_functions sample_plain) =
     Inl (KeyError ''batch_vul_pred'') \<and>
   is_Exception (KeyError ''batch_vul_pred'') \<and>
   analyze_file no_float_str (\<lambda>p. Inr sample_plain) (\<lambda>codes gpu. Inr vuln_no_pred)
     (\<lambda>codes gpu. Inr cwe_empty) (\<lambda>codes gpu. Inr sev_empty) ''plain.c'' =
     Inr \<lparr>vulnerabilities = [],
          errors = [''Analysis failed: '' @ [CHR 0x27] @ ''batch_vul_pred'' @ [CHR 0x27]]\<rparr> \<and>
   is_Exception (Failure ''No such file'') \<and>
   analyze_file no_float_str (\<lambda>p. Inl (Failure ''No such file'')) (\<lambda>codes gpu. Inr vuln_no_pred)
     (\<lambda>codes gpu. Inr cwe_empty) (\<lambda>codes gpu. Inr sev_empty) ''missing.c'' =
     Inr \<lparr>vulnerabilities = [], errors = [''Analysis failed: No such file'']\<rparr>"
proof -
  have h: "fuse no_float_str vuln_no_pred cwe_empty sev_empty (extract_functions sample_plain) =
     Inl (KeyError ''batch_vul_pred'')" by code_simp
  have "is_Exception (KeyError ''batch_vul_pred'') \<longrightarrow>
     analyze_file no_float_str (\<lambda>p. Inr sample_plain) (\<lambda>codes gpu. Inr vuln_no_pred)
       (\<lambda>codes gpu. Inr cwe_empty) (\<lambda>codes gpu. Inr sev_empty) ''plain.c'' =
     Inr \<lparr>vulnerabilities = [],
          errors = [''Analysis failed: '' @ str_exn (KeyError ''batch_vul_pred'')]\<rparr>"
    by (rule conjunct1 [OF analyze_file_catches]) (simp add: h)
  then have 1: "analyze_file no_float_str (\<lambda>p. Inr sample_plain) (\<lambda>codes gpu. Inr vuln_no_pred)
       (\<lambda>codes gpu. Inr cwe_empty) (\<lambda>codes gpu. Inr sev_empty) ''plain.c'' =
     Inr \<lparr>vulnerabilities = [],
          errors = [''Analysis failed: '' @ str_exn (KeyError ''batch_vul_pred'')]\<rparr>"
    by simp
  have "is_Exception (Failure ''No such file'') \<longrightarrow>
     analyze_file no_float_str (\<lambda>p. Inl (Failure ''No such file'')) (\<lambda>codes gpu. Inr vuln_no_pred)
       (\<lambda>codes gpu. Inr cwe_empty) (\<lambda>codes gpu. Inr sev_empty) ''missing.c'' =
     Inr \<lparr>vulnerabilities = [], errors = [''Analysis failed: '' @ str_exn (Failure ''No such file'')]\<rparr>"
    by (rule conjunct1 [OF analyze_file_catches]) simp
  then have 2: "analyze_file no_float_str (\<lambda>p. Inl (Failure ''No such file''))
       (\<lambda>codes gpu. Inr vuln_no_pred) (\<lambda>codes gpu. Inr cwe_empty) (\<lambda>codes gpu. Inr sev_empty)
       ''missing.c'' =
     Inr \<lparr>vulnerabilities = [], errors = [''Analysis failed: '' @ str_exn (Failure ''No such file'')]\<rparr>"
    by simp
  from h 1 2 show ?thesis by simp
qed

text \<open>
  C9, as stated, fails: for an empty file the extractor returns its fallback unit, the
  classifiers run on it, and with a unit that is not vulnerable the result has no error
  at all.
\<close>

theorem empty_file_counterexample:
  "analyze_file no_float_str (\<lambda>p. Inr []) (\<lambda>codes gpu. Inr vuln_clean)
     (\<lambda>codes gpu. Inr cwe_empty) (\<lambda>codes gpu. Inr sev_empty) ''empty.c'' =
   Inr \<lparr>vulnerabilities = [], errors = []\<rparr>"
  by code_simp

text \<open>
  C9, amended. For an empty input file \<open>extract_functions\<close> returns one unit (the empty
  text, lines 1 to 1), so the zero-units branch is not taken; for no input does
  \<open>analyze_file\<close> return a report whose errors are \<^verbatim>\<open>No functions found in the code\<close>.
\<close>

theorem no_functions_error_unreachable:
  "extract_functions [] = [\<lparr>code = [], start_line = 1, end_line = 1\<rparr>] \<and>
   analyze_file P read_file main main_cwe main_sev path \<noteq>
     Inr \<lparr>vulnerabilities = vs, errors = [''No functions found in the code'']\<rparr>"
proof
  show "extract_functions [] = [\<lparr>code = [], start_line = 1, end_line = 1\<rparr>]"
    by code_simp
  show "analyze_file P read_file main main_cwe main_sev path \<noteq>
     Inr \<lparr>vulnerabilities = vs, errors = [''No functions found in the code'']\<rparr>"
  proof (cases "analyze_try P read_file main main_cwe main_sev path")
    case (Inl e)
    then show ?thesis by (simp add: analyze_file_def)
  next
    case (Inr r)
    from analyze_try_Inr [OF Inr] have "errors r = []" .
    then have "r \<noteq> \<lparr>vulnerabilities = vs, errors = [''No functions found in the code'']\<rparr>"
      by auto
    with Inr show ?thesis by (simp add: analyze_file_def)
  qed
qed

end
